theory Spec2Isabelle
  imports Complex_Main
begin

section \<open>JavaScript values\<close>

text \<open>
  The values that \<^verbatim>\<open>JSON.parse\<close> produces and that handlers pass to the dispatcher:
  \<^verbatim>\<open>undefined\<close> (a missing property), \<^verbatim>\<open>null\<close>, booleans, finite numbers, strings,
  arrays and plain objects. An object is the association list of its own properties,
  read with \<open>map_of\<close>.
\<close>

datatype jsval =
    JUndefined
  | JNull
  | JBool bool
  | JNumber rat
  | JString string
  | JArray "jsval list"
  | JObject "(string \<times> jsval) list"

text \<open>What a \<^verbatim>\<open>throw\<close> carries. \<open>Error msg\<close> is \<^verbatim>\<open>new Error(msg)\<close>; \<open>Raised v\<close> is any
  other value a handler throws.\<close>

datatype exn =
    Error string
  | TypeError
  | ReferenceError string
  | SyntaxError
  | Raised jsval

datatype 'a completion = Normal 'a | Throw exn

text \<open>ToBoolean, as \<^verbatim>\<open>!x\<close> and \<^verbatim>\<open>x ? a : b\<close> apply it.\<close>

fun truthy :: "jsval \<Rightarrow> bool" where
  "truthy JUndefined = False"
| "truthy JNull = False"
| "truthy (JBool b) = b"
| "truthy (JNumber n) = (n \<noteq> 0)"
| "truthy (JString s) = (s \<noteq> [])"
| "truthy (JArray xs) = True"
| "truthy (JObject ps) = True"

text \<open>
  \<^verbatim>\<open>k in v\<close> and \<^verbatim>\<open>v.k\<close> on a decoded value, for the names the source uses
  (\<^verbatim>\<open>id\<close>, \<^verbatim>\<open>method\<close>, \<^verbatim>\<open>params\<close>): none of them is an array index or a property of a
  built-in prototype. \<^verbatim>\<open>in\<close> throws a TypeError when its right operand is not an
  object; a property read throws a TypeError on \<^verbatim>\<open>undefined\<close> and \<^verbatim>\<open>null\<close>.
\<close>

fun has_property :: "string \<Rightarrow> jsval \<Rightarrow> bool completion" where
  "has_property k (JObject ps) = Normal (k \<in> set (map fst ps))"
| "has_property k (JArray xs) = Normal False"
| "has_property k v = Throw TypeError"

fun get_property :: "jsval \<Rightarrow> string \<Rightarrow> jsval completion" where
  "get_property JUndefined k = Throw TypeError"
| "get_property JNull k = Throw TypeError"
| "get_property (JObject ps) k =
     Normal (case map_of ps k of Some v \<Rightarrow> v | None \<Rightarrow> JUndefined)"
| "get_property v k = Normal JUndefined"

text \<open>
  ToPropertyKey of the value used as a key in \<^verbatim>\<open>k in o\<close> and \<^verbatim>\<open>o[k]\<close>. A string is its
  own key. The engine's ToString of any other value (number formatting, array joining,
  the conversion of an object to a primitive, which can throw) is the argument
  \<open>to_string\<close>: the theorems hold for every such function.
\<close>

definition property_key :: "(jsval \<Rightarrow> string completion) \<Rightarrow> jsval \<Rightarrow> string completion" where
  "property_key to_string v = (case v of JString s \<Rightarrow> Normal s | _ \<Rightarrow> to_string v)"

text \<open>For closed examples: the conversion of a plain decoded object that has no
  property named \<^verbatim>\<open>toString\<close>, the only kind of value the examples convert.\<close>

definition object_to_string :: "jsval \<Rightarrow> string completion" where
  "object_to_string v = Normal ''[object Object]''"

section \<open>Handlers and the method registry\<close>

text \<open>
  A handler is called as \<^verbatim>\<open>handler(rpc, params)\<close>. What the dispatcher sees of it is the
  sequence of calls it makes on \<^verbatim>\<open>rpc\<close> while it runs, \<^verbatim>\<open>rpc.error(m)\<close> and
  \<^verbatim>\<open>rpc.response(x)\<close>, and the value it throws at the end, if any. A call that throws
  ends the handler with that fault; a handler that catches the fault of such a call
  behaves as the handler without the call.
\<close>

datatype call = CallError jsval | CallResponse jsval

type_synonym handler = "jsval \<Rightarrow> call list \<times> exn option"

text \<open>
  The values a registry is made of. An object carries the properties visible on it
  through \<^verbatim>\<open>in\<close> and \<^verbatim>\<open>[]\<close>, own or inherited, an own property before an inherited one
  of the same name. Of a function found in the registry the dispatcher reads one
  property, \<^verbatim>\<open>method\<close>; what every function inherits (\<^verbatim>\<open>call\<close>, \<^verbatim>\<open>apply\<close>, \<^verbatim>\<open>length\<close>, ...)
  has no property of that name and is left out of its list.
\<close>

datatype jsobj =
    OUndefined
  | ONull
  | OBoolean bool
  | ONumber rat
  | OString string
  | OFunction handler "(string \<times> jsobj) list"
  | OObject "(string \<times> jsobj) list"

fun typeof :: "jsobj \<Rightarrow> string" where
  "typeof OUndefined = ''undefined''"
| "typeof ONull = ''object''"
| "typeof (OBoolean b) = ''boolean''"
| "typeof (ONumber n) = ''number''"
| "typeof (OString s) = ''string''"
| "typeof (OFunction h ps) = ''function''"
| "typeof (OObject ps) = ''object''"

fun truthy_obj :: "jsobj \<Rightarrow> bool" where
  "truthy_obj OUndefined = False"
| "truthy_obj ONull = False"
| "truthy_obj (OBoolean b) = b"
| "truthy_obj (ONumber n) = (n \<noteq> 0)"
| "truthy_obj (OString s) = (s \<noteq> [])"
| "truthy_obj (OFunction h ps) = True"
| "truthy_obj (OObject ps) = True"

fun obj_has :: "string \<Rightarrow> jsobj \<Rightarrow> bool completion" where
  "obj_has k (OFunction h ps) = Normal (k \<in> set (map fst ps))"
| "obj_has k (OObject ps) = Normal (k \<in> set (map fst ps))"
| "obj_has k v = Throw TypeError"

fun obj_get :: "jsobj \<Rightarrow> string \<Rightarrow> jsobj completion" where
  "obj_get OUndefined k = Throw TypeError"
| "obj_get ONull k = Throw TypeError"
| "obj_get (OFunction h ps) k =
     Normal (case map_of ps k of Some v \<Rightarrow> v | None \<Rightarrow> OUndefined)"
| "obj_get (OObject ps) k =
     Normal (case map_of ps k of Some v \<Rightarrow> v | None \<Rightarrow> OUndefined)"
| "obj_get v k = Normal OUndefined"

section \<open>The transport and the handler object\<close>

text \<open>
  The two http objects are recorders: each keeps the calls made on it, in order.
  \<open>End None\<close> is \<^verbatim>\<open>response.end()\<close>; \<open>End (Some (JSON_stringify v))\<close> is
  \<^verbatim>\<open>response.end(JSON.stringify(v))\<close>, the serialisation left symbolic.
\<close>

datatype request_call = SetEncoding string | AddListener string

datatype body = JSON_stringify jsval

datatype response_call = WriteHead nat "(string \<times> string) list" | End "body option"

text \<open>
  The fields of an \<^verbatim>\<open>RpcHandler\<close> whose constructor found both http objects.
  \<open>id' = None\<close> is an object without an \<^verbatim>\<open>id\<close> property.
\<close>

record rpc_handler =
  request :: "request_call list"
  response :: "response_call list"
  methods :: jsobj
  debug :: bool
  json :: jsval
  id' :: "jsval option"

section \<open>RpcHandler.prototype\<close>

text \<open>The headers of every \<^verbatim>\<open>writeHead\<close>: \<^verbatim>\<open>{"Content-Type": "application/json"}\<close>.\<close>

definition json_headers :: "(string \<times> string) list" where
  "json_headers = [(''Content-Type'', ''application/json'')]"

text \<open>\<^verbatim>\<open>_output(result, error)\<close>, and the two public methods that call it:
  \<^verbatim>\<open>error(error)\<close> is \<^verbatim>\<open>this._output(false, error)\<close> and \<^verbatim>\<open>response(result)\<close> is
  \<^verbatim>\<open>this._output(result, false)\<close>; both drop its boolean.\<close>

definition proto_output :: "jsval \<Rightarrow> jsval \<Rightarrow> rpc_handler \<Rightarrow> bool \<times> rpc_handler" where
  "proto_output result error this =
    (let head = WriteHead (if truthy error then 500 else 200) json_headers
     in case id' this of
          None \<Rightarrow> (False, this\<lparr>response := response this @ [head, End None]\<rparr>)
        | Some i \<Rightarrow>
            if i = JNull
            then (False, this\<lparr>response := response this @ [head, End None]\<rparr>)
            else (True, this\<lparr>response := response this @
                    [head, End (Some (JSON_stringify (JObject
                       [(''result'', if truthy error then JNull else result),
                        (''error'', if truthy error then error else JNull),
                        (''id'', i)])))]\<rparr>))"

definition proto_error :: "jsval \<Rightarrow> rpc_handler \<Rightarrow> rpc_handler" where
  "proto_error error this = snd (proto_output (JBool False) error this)"

definition proto_response :: "jsval \<Rightarrow> rpc_handler \<Rightarrow> rpc_handler" where
  "proto_response result this = snd (proto_output result (JBool False) this)"

text \<open>
  A method call \<^verbatim>\<open>rpc.name(...)\<close> reads the property \<^verbatim>\<open>name\<close> of the instance: an own
  property first, then the prototype. The constructor assigns the own properties below
  (the http objects, the registry, a boolean and the decoded body; the callback may add
  \<^verbatim>\<open>id\<close>), none of them a function; the prototype defines the methods below.
  \<open>perform\<close> is one call of a handler on \<^verbatim>\<open>rpc\<close>, \<open>run_handler\<close> the whole call of the
  handler.
\<close>

definition own_properties :: "string list" where
  "own_properties = [''request'', ''response'', ''methods'', ''debug'', ''json'']"

definition prototype_methods :: "string list" where
  "prototype_methods =
     [''error'', ''response'', ''_run'', ''_output'', ''_handleRequest'', ''_handleRequestBody'']"

fun perform :: "call \<Rightarrow> rpc_handler \<Rightarrow> unit completion \<times> rpc_handler" where
  "perform (CallError m) this =
     (if ''error'' \<in> set own_properties then (Throw TypeError, this)
      else (Normal (), proto_error m this))"
| "perform (CallResponse x) this =
     (if ''response'' \<in> set own_properties then (Throw TypeError, this)
      else (Normal (), proto_response x this))"

fun perform_all :: "call list \<Rightarrow> rpc_handler \<Rightarrow> unit completion \<times> rpc_handler" where
  "perform_all [] this = (Normal (), this)"
| "perform_all (c # cs) this =
     (case perform c this of
        (Throw e, this') \<Rightarrow> (Throw e, this')
      | (Normal u, this') \<Rightarrow> perform_all cs this')"

definition run_handler :: "handler \<Rightarrow> jsval \<Rightarrow> rpc_handler \<Rightarrow> unit completion \<times> rpc_handler" where
  "run_handler h params this =
     (case h params of (calls, raised) \<Rightarrow>
        (case perform_all calls this of
           (Throw e, this') \<Rightarrow> (Throw e, this')
         | (Normal u, this') \<Rightarrow>
             (case raised of None \<Rightarrow> (Normal (), this') | Some e \<Rightarrow> (Throw e, this'))))"

text \<open>
  The condition of the second \<^verbatim>\<open>if\<close> of \<^verbatim>\<open>_run\<close>:
  \<^verbatim>\<open>!m || !(m in methods) || typeof methods[m] != "function"\<close>, with \<open>m\<close> the value of
  \<^verbatim>\<open>this.json.method\<close>.
\<close>

definition invalid_method ::
  "(jsval \<Rightarrow> string completion) \<Rightarrow> jsval \<Rightarrow> jsobj \<Rightarrow> bool completion" where
  "invalid_method to_string m ms =
     (if truthy m then
        (case property_key to_string m of
           Throw e \<Rightarrow> Throw e
         | Normal k \<Rightarrow>
             (case obj_has k ms of
                Throw e \<Rightarrow> Throw e
              | Normal present \<Rightarrow>
                  if present then
                    (case obj_get ms k of
                       Throw e \<Rightarrow> Throw e
                     | Normal v \<Rightarrow> Normal (typeof v \<noteq> ''function''))
                  else Normal True))
      else Normal True)"

text \<open>
  The body of the \<^verbatim>\<open>try\<close>: \<^verbatim>\<open>this.methods[this.json].method(this, this.json.params)\<close>.
  The registry is indexed with the decoded body itself, and the property \<^verbatim>\<open>method\<close> of
  what is found there is called.
\<close>

definition try_block ::
  "(jsval \<Rightarrow> string completion) \<Rightarrow> rpc_handler \<Rightarrow> unit completion \<times> rpc_handler" where
  "try_block to_string this =
     (case property_key to_string (json this) of
        Throw e \<Rightarrow> (Throw e, this)
      | Normal k \<Rightarrow>
     (case obj_get (methods this) k of
        Throw e \<Rightarrow> (Throw e, this)
      | Normal entry \<Rightarrow>
     (case obj_get entry ''method'' of
        Throw e \<Rightarrow> (Throw e, this)
      | Normal callee \<Rightarrow>
     (case get_property (json this) ''params'' of
        Throw e \<Rightarrow> (Throw e, this)
      | Normal params \<Rightarrow>
     (case callee of
        OFunction h ps \<Rightarrow> run_handler h params this
      | _ \<Rightarrow> (Throw TypeError, this))))))"

text \<open>
  The \<^verbatim>\<open>catch\<close> block: \<^verbatim>\<open>rpcHandler.error(rpcHandler.debug ? e.message : "Runtime error", -1)\<close>.
  The only declaration of \<^verbatim>\<open>rpcHandler\<close> in the two source files is a \<^verbatim>\<open>var\<close> local to
  \<^verbatim>\<open>_handleRequest\<close>; inside \<^verbatim>\<open>_run\<close> the identifier is unbound, and reading it throws a
  ReferenceError before anything else of the statement is evaluated.
\<close>

definition catch_block :: "exn \<Rightarrow> rpc_handler \<Rightarrow> unit completion \<times> rpc_handler" where
  "catch_block e this = (Throw (ReferenceError ''rpcHandler''), this)"

definition proto_run ::
  "(jsval \<Rightarrow> string completion) \<Rightarrow> rpc_handler \<Rightarrow> unit completion \<times> rpc_handler" where
  "proto_run to_string this =
     (if truthy_obj (methods this) then
        (case get_property (json this) ''method'' of
           Throw e \<Rightarrow> (Throw e, this)
         | Normal m \<Rightarrow>
             (case invalid_method to_string m (methods this) of
                Throw e \<Rightarrow> (Throw e, this)
              | Normal invalid \<Rightarrow>
                  if invalid
                  then (Normal (), proto_error (JString ''Invalid request method'') this)
                  else (case try_block to_string this of
                          (Throw e, this') \<Rightarrow> catch_block e this'
                        | (Normal u, this') \<Rightarrow> (Normal (), this'))))
      else (Normal (), proto_error (JString ''No methods'') this))"

text \<open>
  The function \<^verbatim>\<open>_handleRequest\<close> passes on as the callback:
  \<^verbatim>\<open>rpcHandler.json = json; if ("id" in json) rpcHandler.id = json.id; rpcHandler._run();\<close>
  \<open>store_envelope\<close> is its first two statements.
\<close>

definition store_envelope :: "jsval \<Rightarrow> rpc_handler \<Rightarrow> unit completion \<times> rpc_handler" where
  "store_envelope decoded this =
     (let this1 = this\<lparr>json := decoded\<rparr>
      in case has_property ''id'' decoded of
           Throw e \<Rightarrow> (Throw e, this1)
         | Normal present \<Rightarrow>
             if present then
               (case get_property decoded ''id'' of
                  Throw e \<Rightarrow> (Throw e, this1)
                | Normal i \<Rightarrow> (Normal (), this1\<lparr>id' := Some i\<rparr>))
             else (Normal (), this1))"

definition handleRequest_callback ::
  "(jsval \<Rightarrow> string completion) \<Rightarrow> jsval \<Rightarrow> rpc_handler \<Rightarrow> unit completion \<times> rpc_handler" where
  "handleRequest_callback to_string decoded this =
     (case store_envelope decoded this of
        (Throw e, this') \<Rightarrow> (Throw e, this')
      | (Normal u, this') \<Rightarrow> proto_run to_string this')"

text \<open>
  \<^verbatim>\<open>_handleRequestBody\<close> registers two listeners on the request. The \<^verbatim>\<open>data\<close> listener
  appends a chunk to the local \<^verbatim>\<open>content\<close>; the \<^verbatim>\<open>end\<close> listener runs
  \<^verbatim>\<open>callback(JSON.parse(content))\<close>. \<^verbatim>\<open>JSON.parse\<close> is the argument \<open>JSON_parse\<close>:
  it throws a SyntaxError on a text that is not JSON.
\<close>

definition proto_handleRequestBody :: "rpc_handler \<Rightarrow> rpc_handler" where
  "proto_handleRequestBody this =
     this\<lparr>request := request this @ [AddListener ''data'', AddListener ''end'']\<rparr>"

definition data_listener :: "string \<Rightarrow> string \<Rightarrow> string" where
  "data_listener content chunk = content @ chunk"

definition end_listener ::
  "(string \<Rightarrow> jsval completion) \<Rightarrow> (jsval \<Rightarrow> rpc_handler \<Rightarrow> unit completion \<times> rpc_handler) \<Rightarrow>
   string \<Rightarrow> rpc_handler \<Rightarrow> unit completion \<times> rpc_handler" where
  "end_listener JSON_parse callback content this =
     (case JSON_parse content of
        Throw e \<Rightarrow> (Throw e, this)
      | Normal decoded \<Rightarrow> callback decoded this)"

text \<open>The request delivers its chunks, then ends.\<close>

definition receive ::
  "(string \<Rightarrow> jsval completion) \<Rightarrow> (jsval \<Rightarrow> string completion) \<Rightarrow> string list \<Rightarrow>
   rpc_handler \<Rightarrow> unit completion \<times> rpc_handler" where
  "receive JSON_parse to_string chunks this =
     end_listener JSON_parse (handleRequest_callback to_string)
       (foldl data_listener [] chunks) this"

text \<open>
  \<^verbatim>\<open>_handleRequest\<close>: \<^verbatim>\<open>this.request.setEncoding('utf8')\<close>, then the call
  \<^verbatim>\<open>this._handleBodyRequest(...)\<close>. Calling a property that is not there throws a
  TypeError.
\<close>

definition proto_handleRequest :: "rpc_handler \<Rightarrow> unit completion \<times> rpc_handler" where
  "proto_handleRequest this =
     (let this1 = this\<lparr>request := request this @ [SetEncoding ''utf8'']\<rparr>
      in if ''_handleBodyRequest'' \<in> set prototype_methods
         then (Normal (), proto_handleRequestBody this1)
         else (Throw TypeError, this1))"

section \<open>The constructor\<close>

text \<open>
  \<^verbatim>\<open>new RpcHandler(request, response, methods, debug)\<close>. A missing http object
  (\<^verbatim>\<open>undefined\<close>, \<^verbatim>\<open>null\<close>) is \<open>None\<close>. The result is the completion of the constructor
  and the two http objects as it leaves them.
\<close>

text \<open>The assignments at the head of the constructor; \<^verbatim>\<open>this.json = false\<close>, and no
  \<^verbatim>\<open>id\<close>.\<close>

definition new_handler ::
  "request_call list \<Rightarrow> response_call list \<Rightarrow> jsobj \<Rightarrow> bool \<Rightarrow> rpc_handler" where
  "new_handler rq rs ms d =
     \<lparr>request = rq, response = rs, methods = ms, debug = d, json = JBool False, id' = None\<rparr>"

definition RpcHandler ::
  "request_call list option \<Rightarrow> response_call list option \<Rightarrow> jsobj \<Rightarrow> bool \<Rightarrow>
   unit completion \<times> request_call list option \<times> response_call list option" where
  "RpcHandler request_arg response_arg methods_arg debug_arg =
     (if typeof methods_arg = ''object'' then
        (case request_arg of
           None \<Rightarrow> (Throw (Error ''Invalid params''), request_arg, response_arg)
         | Some rq \<Rightarrow>
             (case response_arg of
                None \<Rightarrow> (Throw (Error ''Invalid params''), request_arg, response_arg)
              | Some rs \<Rightarrow>
                  (case proto_handleRequest (new_handler rq rs methods_arg debug_arg) of
                     (c, this) \<Rightarrow> (c, Some (request this), Some (response this)))))
      else (Throw (Error ''Invalid params''), request_arg, response_arg))"

section \<open>A response object that refuses calls\<close>

text \<open>
  The recorder above accepts every call. The \<^verbatim>\<open>http.ServerResponse\<close> that the constructor
  is documented to receive does not: once a head has been written, \<^verbatim>\<open>writeHead\<close> throws
  (\<^verbatim>\<open>ERR_HTTP_HEADERS_SENT\<close>). \<open>ServerResponse accepted c\<close> is the fault thrown at the call
  \<open>c\<close> after the calls \<open>accepted\<close>, if any; \<^verbatim>\<open>_output\<close> never reaches an \<^verbatim>\<open>end\<close> that
  follows an \<^verbatim>\<open>end\<close>, since its \<^verbatim>\<open>writeHead\<close> comes first.
\<close>

fun head_written :: "response_call list \<Rightarrow> bool" where
  "head_written [] = False"
| "head_written (WriteHead status headers # cs) = True"
| "head_written (End b # cs) = head_written cs"

definition ServerResponse :: "response_call list \<Rightarrow> response_call \<Rightarrow> exn option" where
  "ServerResponse accepted c =
     (case c of
        WriteHead status headers \<Rightarrow>
          if head_written accepted
          then Some (Error ''Cannot write headers after they are sent to the client'')
          else None
      | End b \<Rightarrow> None)"

text \<open>
  \<^verbatim>\<open>_output\<close>, \<^verbatim>\<open>error\<close> and \<^verbatim>\<open>response\<close> on a response object with such a reaction: a call
  that is refused is not recorded, and its fault ends \<^verbatim>\<open>_output\<close> where it stands.
\<close>

definition proto_output_on ::
  "(response_call list \<Rightarrow> response_call \<Rightarrow> exn option) \<Rightarrow> jsval \<Rightarrow> jsval \<Rightarrow> rpc_handler \<Rightarrow>
   bool completion \<times> rpc_handler" where
  "proto_output_on reaction result error this =
    (let head = WriteHead (if truthy error then 500 else 200) json_headers
     in case reaction (response this) head of
          Some e \<Rightarrow> (Throw e, this)
        | None \<Rightarrow>
            (let this1 = this\<lparr>response := response this @ [head]\<rparr>;
                 empty = (case reaction (response this1) (End None) of
                            Some e \<Rightarrow> (Throw e, this1)
                          | None \<Rightarrow>
                              (Normal False, this1\<lparr>response := response this1 @ [End None]\<rparr>))
             in case id' this of
                  None \<Rightarrow> empty
                | Some i \<Rightarrow>
                    if i = JNull then empty
                    else
                      (let fin = End (Some (JSON_stringify (JObject
                                   [(''result'', if truthy error then JNull else result),
                                    (''error'', if truthy error then error else JNull),
                                    (''id'', i)])))
                       in case reaction (response this1) fin of
                            Some e \<Rightarrow> (Throw e, this1)
                          | None \<Rightarrow>
                              (Normal True, this1\<lparr>response := response this1 @ [fin]\<rparr>))))"

definition proto_error_on ::
  "(response_call list \<Rightarrow> response_call \<Rightarrow> exn option) \<Rightarrow> jsval \<Rightarrow> rpc_handler \<Rightarrow>
   unit completion \<times> rpc_handler" where
  "proto_error_on reaction error this =
     (case proto_output_on reaction (JBool False) error this of
        (Throw e, this') \<Rightarrow> (Throw e, this')
      | (Normal sent, this') \<Rightarrow> (Normal (), this'))"

definition proto_response_on ::
  "(response_call list \<Rightarrow> response_call \<Rightarrow> exn option) \<Rightarrow> jsval \<Rightarrow> rpc_handler \<Rightarrow>
   unit completion \<times> rpc_handler" where
  "proto_response_on reaction result this =
     (case proto_output_on reaction result (JBool False) this of
        (Throw e, this') \<Rightarrow> (Throw e, this')
      | (Normal sent, this') \<Rightarrow> (Normal (), this'))"

section \<open>Observations and examples\<close>

text \<open>The bodies written to the response, in order.\<close>

fun written_bodies :: "response_call list \<Rightarrow> body list" where
  "written_bodies [] = []"
| "written_bodies (End (Some b) # cs) = b # written_bodies cs"
| "written_bodies (c # cs) = written_bodies cs"

text \<open>
  Decoded request bodies: \<^verbatim>\<open>{"jsonrpc":"2.0","method":"insert","params":["v","v"],"id":1}\<close>,
  the same without an \<^verbatim>\<open>id\<close>, the same with \<^verbatim>\<open>"id":null\<close>, and
  \<^verbatim>\<open>{"jsonrpc":"2.0","method":"missing"}\<close>.
\<close>

definition insert_request :: jsval where
  "insert_request = JObject
     [(''jsonrpc'', JString ''2.0''), (''method'', JString ''insert''),
      (''params'', JArray [JString ''v'', JString ''v'']), (''id'', JNumber 1)]"

definition insert_notification :: jsval where
  "insert_notification = JObject
     [(''jsonrpc'', JString ''2.0''), (''method'', JString ''insert''),
      (''params'', JArray [JString ''v'', JString ''v''])]"

definition insert_null_id :: jsval where
  "insert_null_id = JObject
     [(''jsonrpc'', JString ''2.0''), (''method'', JString ''insert''),
      (''params'', JArray [JString ''v'', JString ''v'']), (''id'', JNull)]"

definition missing_notification :: jsval where
  "missing_notification = JObject
     [(''jsonrpc'', JString ''2.0''), (''method'', JString ''missing'')]"

text \<open>\<^verbatim>\<open>{"jsonrpc":"2.0","method":"missing","id":3}\<close>, decoded.\<close>

definition missing_request :: jsval where
  "missing_request = JObject
     [(''jsonrpc'', JString ''2.0''), (''method'', JString ''missing''), (''id'', JNumber 3)]"

text \<open>
  What an object literal inherits from \<^verbatim>\<open>Object.prototype\<close>: eleven built-in functions and
  \<^verbatim>\<open>__proto__\<close>, which reads as \<^verbatim>\<open>Object.prototype\<close> itself. Called with \<^verbatim>\<open>(rpc, params)\<close> a
  built-in function makes no call on \<^verbatim>\<open>rpc\<close>; \<^verbatim>\<open>__defineGetter__\<close> and \<^verbatim>\<open>__defineSetter__\<close>
  throw a TypeError, their second argument being no function.
\<close>

definition native :: handler where
  "native args = ([], None)"

definition native_define :: handler where
  "native_define args = ([], Some TypeError)"

definition Object_prototype :: "(string \<times> jsobj) list" where
  "Object_prototype =
     [(''constructor'', OFunction native []),
      (''__defineGetter__'', OFunction native_define []),
      (''__defineSetter__'', OFunction native_define []),
      (''hasOwnProperty'', OFunction native []),
      (''__lookupGetter__'', OFunction native []),
      (''__lookupSetter__'', OFunction native []),
      (''isPrototypeOf'', OFunction native []),
      (''propertyIsEnumerable'', OFunction native []),
      (''toString'', OFunction native []),
      (''valueOf'', OFunction native []),
      (''toLocaleString'', OFunction native [])]"

definition object_literal :: "(string \<times> jsobj) list \<Rightarrow> jsobj" where
  "object_literal own =
     OObject (own @
       (''__proto__'', OObject ((''__proto__'', ONull) # Object_prototype)) # Object_prototype)"

text \<open>
  The registry of \<^verbatim>\<open>rpcdemo.js\<close>, the object literal \<^verbatim>\<open>{insert: function(rpc, args){...}}\<close>:
  \<open>h\<close> is what that function does when it is called. \<open>answering\<close> is the handler
  \<^verbatim>\<open>function(rpc, args) { rpc.response("Params are OK!"); }\<close>.
\<close>

definition rpcMethods :: "handler \<Rightarrow> jsobj" where
  "rpcMethods h = object_literal [(''insert'', OFunction h [])]"

definition answering :: handler where
  "answering args = ([CallResponse (JString ''Params are OK!'')], None)"

text \<open>
  \<open>raising cs e\<close> is a handler that makes the calls \<open>cs\<close> on \<^verbatim>\<open>rpc\<close> and then throws
  \<open>e\<close>. \<open>nested_methods h g\<close> is the registry
  \<^verbatim>\<open>{insert: h, "[object Object]": {method: g}}\<close>.
\<close>

definition raising :: "call list \<Rightarrow> exn \<Rightarrow> handler" where
  "raising cs e args = (cs, Some e)"

definition nested_methods :: "handler \<Rightarrow> handler \<Rightarrow> jsobj" where
  "nested_methods h g =
     object_literal [(''insert'', OFunction h []),
                     (''[object Object]'', object_literal [(''method'', OFunction g [])])]"

text \<open>The handler object once the callback has stored a decoded body, on fresh http
  objects, with the registry above.\<close>

definition stored :: "jsval \<Rightarrow> rpc_handler" where
  "stored decoded = snd (store_envelope decoded (new_handler [] [] (rpcMethods answering) True))"

text \<open>For closed examples of a body that is not JSON: \<^verbatim>\<open>JSON.parse\<close> on the texts the
  examples feed it, none of which it accepts.\<close>

definition rejecting_parse :: "string \<Rightarrow> jsval completion" where
  "rejecting_parse s = Throw SyntaxError"

section \<open>Finalisation: \<^verbatim>\<open>_output\<close>, \<^verbatim>\<open>error\<close>, \<^verbatim>\<open>response\<close>\<close>

lemma proto_output_fields:
  "request (snd (proto_output result error this)) = request this"
  "methods (snd (proto_output result error this)) = methods this"
  "debug (snd (proto_output result error this)) = debug this"
  "json (snd (proto_output result error this)) = json this"
  "id' (snd (proto_output result error this)) = id' this"
  by (simp_all add: proto_output_def Let_def split: option.split)

lemma response_proto_output:
  "response (snd (proto_output result error this)) =
     response this @
       [WriteHead (if truthy error then 500 else 200) json_headers,
        End (case id' this of
               None \<Rightarrow> None
             | Some i \<Rightarrow>
                 if i = JNull then None
                 else Some (JSON_stringify (JObject
                        [(''result'', if truthy error then JNull else result),
                         (''error'', if truthy error then error else JNull),
                         (''id'', i)])))]"
  by (simp add: proto_output_def Let_def split: option.split)

lemma proto_error_fields:
  "request (proto_error m this) = request this"
  "methods (proto_error m this) = methods this"
  "debug (proto_error m this) = debug this"
  "json (proto_error m this) = json this"
  "id' (proto_error m this) = id' this"
  by (simp_all add: proto_error_def proto_output_fields)

lemma proto_response_fields:
  "request (proto_response x this) = request this"
  "methods (proto_response x this) = methods this"
  "debug (proto_response x this) = debug this"
  "json (proto_response x this) = json this"
  "id' (proto_response x this) = id' this"
  by (simp_all add: proto_response_def proto_output_fields)

lemma response_proto_error:
  "response (proto_error m this) =
     response this @
       [WriteHead (if truthy m then 500 else 200) json_headers,
        End (case id' this of
               None \<Rightarrow> None
             | Some i \<Rightarrow>
                 if i = JNull then None
                 else Some (JSON_stringify (JObject
                        [(''result'', if truthy m then JNull else JBool False),
                         (''error'', if truthy m then m else JNull),
                         (''id'', i)])))]"
  by (simp add: proto_error_def response_proto_output)

lemma response_proto_response:
  "response (proto_response x this) =
     response this @
       [WriteHead 200 json_headers,
        End (case id' this of
               None \<Rightarrow> None
             | Some i \<Rightarrow>
                 if i = JNull then None
                 else Some (JSON_stringify (JObject
                        [(''result'', x), (''error'', JNull), (''id'', i)])))]"
  by (simp add: proto_response_def response_proto_output)

text \<open>
  C9. \<^verbatim>\<open>error(m)\<close> with a falsy message \<open>m\<close> (the empty string, \<^verbatim>\<open>false\<close>, \<^verbatim>\<open>null\<close>,
  \<^verbatim>\<open>undefined\<close>, zero) writes status 200, and the body, when one is written, has
  \<^verbatim>\<open>error\<close> set to \<^verbatim>\<open>null\<close>: the call does exactly what \<^verbatim>\<open>response(false)\<close> does.
\<close>

theorem falsy_error_is_success:
  assumes "\<not> truthy m"
  shows "proto_error m this = proto_response (JBool False) this \<and>
         response (proto_error m this) =
           response this @
             [WriteHead 200 json_headers,
              End (case id' this of
                     None \<Rightarrow> None
                   | Some i \<Rightarrow>
                       if i = JNull then None
                       else Some (JSON_stringify (JObject
                              [(''result'', JBool False), (''error'', JNull), (''id'', i)])))]"
proof
  show "proto_error m this = proto_response (JBool False) this"
    using assms by (simp add: proto_error_def proto_response_def proto_output_def)
next
  show "response (proto_error m this) =
           response this @
             [WriteHead 200 json_headers,
              End (case id' this of
                     None \<Rightarrow> None
                   | Some i \<Rightarrow>
                       if i = JNull then None
                       else Some (JSON_stringify (JObject
                              [(''result'', JBool False), (''error'', JNull), (''id'', i)])))]"
    using assms by (simp add: response_proto_error)
qed

theorem falsy_error_is_success_witness:
  "\<not> truthy (JString []) \<and>
   response (proto_error (JString []) (stored insert_request)) =
     [WriteHead 200 json_headers,
      End (Some (JSON_stringify (JObject
        [(''result'', JBool False), (''error'', JNull), (''id'', JNumber 1)])))]"
  using falsy_error_is_success
    [of "JString []" "stored insert_request"]
  by (simp add: stored_def store_envelope_def insert_request_def new_handler_def
      response_proto_response)

text \<open>
  The handler object itself keeps no record of having answered. On a response object that
  accepts every call, each call of \<^verbatim>\<open>response\<close> or \<^verbatim>\<open>error\<close> makes one \<^verbatim>\<open>writeHead\<close> and
  one \<^verbatim>\<open>end\<close> call, whatever was written before, and leaves the \<^verbatim>\<open>id\<close> as it was.
\<close>

lemma every_finalization_writes:
  "response (proto_response x this) =
     response this @
       [WriteHead 200 json_headers,
        End (case id' this of
               None \<Rightarrow> None
             | Some i \<Rightarrow>
                 if i = JNull then None
                 else Some (JSON_stringify (JObject
                        [(''result'', x), (''error'', JNull), (''id'', i)])))] \<and>
   response (proto_error m this) =
     response this @
       [WriteHead (if truthy m then 500 else 200) json_headers,
        End (case id' this of
               None \<Rightarrow> None
             | Some i \<Rightarrow>
                 if i = JNull then None
                 else Some (JSON_stringify (JObject
                        [(''result'', if truthy m then JNull else JBool False),
                         (''error'', if truthy m then m else JNull),
                         (''id'', i)])))] \<and>
   id' (proto_response x this) = id' this \<and>
   id' (proto_error m this) = id' this"
  by (simp only: response_proto_response response_proto_error proto_response_fields
      proto_error_fields simp_thms)

text \<open>
  On such a response object a handler that calls \<^verbatim>\<open>rpc.error("a")\<close> and then
  \<^verbatim>\<open>rpc.error("b")\<close> on the request with id 1 gets two bodies recorded.
\<close>

lemma second_finalization_writes_again:
  "response (snd (perform_all [CallError (JString ''a''), CallError (JString ''b'')]
      (stored insert_request))) =
     [WriteHead 500 json_headers,
      End (Some (JSON_stringify (JObject
        [(''result'', JNull), (''error'', JString ''a''), (''id'', JNumber 1)]))),
      WriteHead 500 json_headers,
      End (Some (JSON_stringify (JObject
        [(''result'', JNull), (''error'', JString ''b''), (''id'', JNumber 1)])))]"
  by (simp add: stored_def store_envelope_def insert_request_def new_handler_def
      own_properties_def response_proto_error proto_error_fields)

text \<open>
  The recorder is the response object that refuses nothing, and the first finalisation on
  an \<^verbatim>\<open>http.ServerResponse\<close> is the recorder's.
\<close>

lemma proto_output_on_accepting:
  "proto_output_on (\<lambda>accepted c. None) result error this =
     (Normal (fst (proto_output result error this)), snd (proto_output result error this))"
  by (simp add: proto_output_on_def proto_output_def Let_def split: option.split)

lemma first_output_on_ServerResponse:
  assumes "\<not> head_written (response this)"
  shows "proto_output_on ServerResponse result error this =
     (Normal (fst (proto_output result error this)), snd (proto_output result error this))"
  using assms
  by (simp add: proto_output_on_def proto_output_def ServerResponse_def Let_def
      split: option.split)

lemma head_written_append: "head_written (xs @ ys) = (head_written xs \<or> head_written ys)"
  by (induction xs rule: head_written.induct) simp_all

lemma refused_after_head:
  assumes "head_written (response this)"
  shows "proto_output_on ServerResponse result error this =
     (Throw (Error ''Cannot write headers after they are sent to the client''), this)"
  using assms by (simp add: proto_output_on_def ServerResponse_def Let_def)






lemma error_refused_after_head:
  assumes "head_written (response this)"
  shows "proto_error_on ServerResponse m this =
     (Throw (Error ''Cannot write headers after they are sent to the client''), this)"
  by (simp add: proto_error_on_def refused_after_head [OF assms])



text \<open>
  For the request with id 1 on a fresh \<^verbatim>\<open>http.ServerResponse\<close>: \<^verbatim>\<open>response("a")\<close> and then
  \<^verbatim>\<open>error("b")\<close> leave one head and one body on the transport.
\<close>

lemma one_body_on_ServerResponse:
  "response (snd (proto_error_on ServerResponse (JString ''b'')
      (snd (proto_response_on ServerResponse (JString ''a'') (stored insert_request))))) =
     [WriteHead 200 json_headers,
      End (Some (JSON_stringify (JObject
        [(''result'', JString ''a''), (''error'', JNull), (''id'', JNumber 1)])))]"
proof -
  have fresh: "\<not> head_written (response (stored insert_request))"
    by (simp add: stored_def store_envelope_def insert_request_def new_handler_def)
  have first: "proto_response_on ServerResponse (JString ''a'') (stored insert_request) =
      (Normal (), proto_response (JString ''a'') (stored insert_request))"
    by (simp add: proto_response_on_def first_output_on_ServerResponse [OF fresh]
        proto_response_def)
  have sent: "head_written (response (proto_response (JString ''a'') (stored insert_request)))"
    by (simp add: response_proto_response head_written_append)
  show ?thesis
    unfolding first snd_conv error_refused_after_head [OF sent]
    by (simp add: response_proto_response stored_def store_envelope_def insert_request_def
        new_handler_def)
qed

section \<open>The constructor's check\<close>

text \<open>
  C8. When \<^verbatim>\<open>typeof methods\<close> is not \<^verbatim>\<open>"object"\<close> (the registry is \<^verbatim>\<open>undefined\<close>, a
  boolean, a number, a string or a function), or the request or the response object is
  missing, the constructor throws \<^verbatim>\<open>Error("Invalid params")\<close> and has made no call on
  either http object.
\<close>

theorem invalid_configuration_rejected:
  assumes "typeof ms \<noteq> ''object'' \<or> rq = None \<or> rs = None"
  shows "RpcHandler rq rs ms d = (Throw (Error ''Invalid params''), rq, rs)"
  using assms by (auto simp add: RpcHandler_def split: option.split)

theorem invalid_configuration_rejected_witness:
  "RpcHandler (Some []) (Some []) OUndefined True =
     (Throw (Error ''Invalid params''), Some [], Some []) \<and>
   RpcHandler (Some []) (Some []) (OFunction answering []) True =
     (Throw (Error ''Invalid params''), Some [], Some []) \<and>
   RpcHandler None (Some []) (rpcMethods answering) True =
     (Throw (Error ''Invalid params''), None, Some []) \<and>
   RpcHandler (Some []) None (rpcMethods answering) True =
     (Throw (Error ''Invalid params''), Some [], None)"
  using invalid_configuration_rejected [of OUndefined "Some []" "Some []" True]
    invalid_configuration_rejected [of "OFunction answering []" "Some []" "Some []" True]
    invalid_configuration_rejected [of "rpcMethods answering" None "Some []" True]
    invalid_configuration_rejected [of "rpcMethods answering" "Some []" None True]
  by simp

text \<open>
  C8, as stated, fails for the registry \<^verbatim>\<open>null\<close>, which is no mapping: the constructor
  does not throw \<^verbatim>\<open>Error("Invalid params")\<close>, and it has called \<^verbatim>\<open>setEncoding\<close> on the
  request when it ends.
\<close>

theorem null_registry_is_not_rejected:
  "RpcHandler (Some []) (Some []) ONull True =
     (Throw TypeError, Some [SetEncoding ''utf8''], Some []) \<and>
   RpcHandler (Some []) (Some []) ONull True \<noteq>
     (Throw (Error ''Invalid params''), Some [], Some [])"
  by (simp add: RpcHandler_def proto_handleRequest_def prototype_methods_def new_handler_def)

text \<open>
  C10. A \<^verbatim>\<open>null\<close> registry passes the constructor's check, since \<^verbatim>\<open>typeof null\<close> is
  \<^verbatim>\<open>"object"\<close>, and \<^verbatim>\<open>_run\<close> answers it with \<^verbatim>\<open>error("No methods")\<close>. The constructor
  itself does not get that far: \<^verbatim>\<open>_handleRequest\<close> sets the encoding and then calls
  \<^verbatim>\<open>this._handleBodyRequest\<close>, a property the prototype does not have (its method is
  \<^verbatim>\<open>_handleRequestBody\<close>), so the constructor ends with a TypeError.
\<close>

theorem null_registry_construction:
  "RpcHandler (Some rq) (Some rs) ONull d =
     (Throw TypeError, Some (rq @ [SetEncoding ''utf8'']), Some rs) \<and>
   proto_run to_string (this\<lparr>methods := ONull\<rparr>) =
     (Normal (), proto_error (JString ''No methods'') (this\<lparr>methods := ONull\<rparr>))"
  by (simp add: RpcHandler_def proto_handleRequest_def prototype_methods_def new_handler_def
      proto_run_def)

section \<open>The stored envelope\<close>

lemma key_of_binding: "map_of ps k = Some v \<Longrightarrow> k \<in> set (map fst ps)"
  by (induction ps) (auto split: if_splits)

lemma store_envelope_with_id:
  assumes "map_of env ''id'' = Some i"
  shows "store_envelope (JObject env) this = (Normal (), this\<lparr>json := JObject env, id' := Some i\<rparr>)"
  using assms key_of_binding [OF assms] by (simp add: store_envelope_def)

lemma store_envelope_without_id:
  assumes "has_property ''id'' decoded = Normal False"
  shows "store_envelope decoded this = (Normal (), this\<lparr>json := decoded\<rparr>)"
  using assms by (simp add: store_envelope_def)

text \<open>
  C7. For a decoded request object whose \<^verbatim>\<open>id\<close> is present and not \<^verbatim>\<open>null\<close>, the
  prototype's \<^verbatim>\<open>response\<close> function applied with \<open>x\<close> to the handler object that stored
  it makes one \<^verbatim>\<open>writeHead(200, ...)\<close> call and one \<^verbatim>\<open>end\<close> call, whose body is
  \<^verbatim>\<open>JSON.stringify({result: x, error: null, id: id})\<close>.
\<close>

theorem response_body_shape:
  assumes "map_of env ''id'' = Some i" and "i \<noteq> JNull"
  shows "fst (store_envelope (JObject env) (new_handler rq rs ms d)) = Normal () \<and>
         response (proto_response x (snd (store_envelope (JObject env) (new_handler rq rs ms d)))) =
           rs @ [WriteHead 200 json_headers,
                 End (Some (JSON_stringify (JObject
                   [(''result'', x), (''error'', JNull), (''id'', i)])))]"
  using assms
  by (simp add: store_envelope_with_id response_proto_response new_handler_def)

theorem response_body_shape_witness:
  "map_of [(''jsonrpc'', JString ''2.0''), (''method'', JString ''insert''),
           (''params'', JArray [JString ''v'', JString ''v'']), (''id'', JNumber 1)] ''id''
     = Some (JNumber 1) \<and>
   JNumber 1 \<noteq> JNull \<and>
   response (proto_response (JString ''Params are OK!'') (stored insert_request)) =
     [WriteHead 200 json_headers,
      End (Some (JSON_stringify (JObject
        [(''result'', JString ''Params are OK!''), (''error'', JNull), (''id'', JNumber 1)])))]"
  using response_body_shape
    [of "[(''jsonrpc'', JString ''2.0''), (''method'', JString ''insert''),
          (''params'', JArray [JString ''v'', JString ''v'']), (''id'', JNumber 1)]"
        "JNumber 1" "[]" "[]" "rpcMethods answering" True "JString ''Params are OK!''"]
  by (simp add: stored_def insert_request_def)

text \<open>
  C7, as stated, fails for a request that carries \<^verbatim>\<open>"id": null\<close>: \<^verbatim>\<open>response\<close> writes
  status 200 and ends the transport with no body.
\<close>

theorem null_id_response_has_no_body:
  "response (proto_response (JString ''Params are OK!'') (stored insert_null_id)) =
     [WriteHead 200 json_headers, End None]"
  by (simp add: stored_def store_envelope_def insert_null_id_def new_handler_def
      response_proto_response)

section \<open>Dispatch: \<^verbatim>\<open>_run\<close>\<close>

lemma typeof_function: "(typeof v = ''function'') = (\<exists>h qs. v = OFunction h qs)"
  by (cases v) simp_all

lemma invalid_method_falsy: "\<not> truthy m \<Longrightarrow> invalid_method ts m ms = Normal True"
  by (simp add: invalid_method_def)

lemma invalid_method_no_function:
  assumes "truthy m" and "property_key ts m = Normal k"
    and "\<forall>h qs. map_of ps k \<noteq> Some (OFunction h qs)"
  shows "invalid_method ts m (OObject ps) = Normal True"
proof (cases "map_of ps k")
  case None
  then have "k \<notin> set (map fst ps)"
    by (simp add: map_of_eq_None_iff)
  then show ?thesis
    using assms(1,2) by (simp add: invalid_method_def)
next
  case (Some v)
  with assms(3) have "typeof v \<noteq> ''function''"
    by (simp add: typeof_function)
  then show ?thesis
    using assms(1,2) Some by (simp add: invalid_method_def)
qed

lemma proto_run_invalid:
  assumes "truthy_obj (methods this)"
    and "get_property (json this) ''method'' = Normal m"
    and "invalid_method ts m (methods this) = Normal True"
  shows "proto_run ts this = (Normal (), proto_error (JString ''Invalid request method'') this)"
  using assms by (simp add: proto_run_def)

lemma proto_run_valid:
  assumes "truthy_obj (methods this)"
    and "get_property (json this) ''method'' = Normal m"
    and "invalid_method ts m (methods this) = Normal False"
  shows "proto_run ts this =
           (case try_block ts this of
              (Throw e, this') \<Rightarrow> (Throw (ReferenceError ''rpcHandler''), this')
            | (Normal u, this') \<Rightarrow> (Normal (), this'))"
  using assms by (simp add: proto_run_def catch_block_def split: prod.split completion.split)

text \<open>
  C6. With a registry object, \<^verbatim>\<open>_run\<close> answers a stored request whose \<^verbatim>\<open>method\<close> is
  missing, or falsy, or converts to a key under which the registry has no function, with
  \<^verbatim>\<open>error("Invalid request method")\<close>: status 500, and the body
  \<^verbatim>\<open>{result: null, error: "Invalid request method", id: id}\<close> when the \<^verbatim>\<open>id\<close> is present
  and not \<^verbatim>\<open>null\<close>, no body otherwise.
\<close>

theorem invalid_method_rejected:
  assumes "methods this = OObject ps" and "json this = JObject env"
    and "map_of env ''method'' = None \<or>
         (\<exists>m. map_of env ''method'' = Some m \<and>
            (\<not> truthy m \<or>
             (\<exists>k. property_key ts m = Normal k \<and>
                (\<forall>h qs. map_of ps k \<noteq> Some (OFunction h qs)))))"
  shows "proto_run ts this =
           (Normal (), proto_error (JString ''Invalid request method'') this) \<and>
         response (snd (proto_run ts this)) =
           response this @
             [WriteHead 500 json_headers,
              End (case id' this of
                     None \<Rightarrow> None
                   | Some i \<Rightarrow>
                       if i = JNull then None
                       else Some (JSON_stringify (JObject
                              [(''result'', JNull),
                               (''error'', JString ''Invalid request method''),
                               (''id'', i)])))]"
proof -
  obtain m where m: "get_property (json this) ''method'' = Normal m"
    and bad: "\<not> truthy m \<or>
              (\<exists>k. property_key ts m = Normal k \<and>
                 (\<forall>h qs. map_of ps k \<noteq> Some (OFunction h qs)))"
    using assms(2,3) by (auto split: option.split)
  have "invalid_method ts m (OObject ps) = Normal True"
  proof (cases "truthy m")
    case False
    then show ?thesis by (rule invalid_method_falsy)
  next
    case True
    with bad show ?thesis by (auto intro: invalid_method_no_function)
  qed
  then have run: "proto_run ts this =
      (Normal (), proto_error (JString ''Invalid request method'') this)"
    using assms(1) m by (simp add: proto_run_invalid)
  show ?thesis
    by (simp add: run response_proto_error)
qed

theorem invalid_method_rejected_witness:
  "response (snd (proto_run object_to_string (stored missing_request))) =
     [WriteHead 500 json_headers,
      End (Some (JSON_stringify (JObject
        [(''result'', JNull), (''error'', JString ''Invalid request method''),
         (''id'', JNumber 3)])))]"
proof -
  let ?env = "[(''jsonrpc'', JString ''2.0''), (''method'', JString ''missing''),
               (''id'', JNumber 3)]"
  let ?ps = "[(''insert'', OFunction answering [])] @
               (''__proto__'', OObject ((''__proto__'', ONull) # Object_prototype)) #
               Object_prototype"
  have st: "stored missing_request =
      (new_handler [] [] (rpcMethods answering) True)
        \<lparr>json := missing_request, id' := Some (JNumber 3)\<rparr>"
    by (simp add: stored_def store_envelope_def missing_request_def)
  have registry: "methods (stored missing_request) = OObject ?ps"
    by (simp add: st new_handler_def rpcMethods_def object_literal_def)
  have envelope: "json (stored missing_request) = JObject ?env"
    unfolding st by (simp add: missing_request_def)
  have unknown: "map_of ?env ''method'' = None \<or>
         (\<exists>m. map_of ?env ''method'' = Some m \<and>
            (\<not> truthy m \<or>
             (\<exists>k. property_key object_to_string m = Normal k \<and>
                (\<forall>h qs. map_of ?ps k \<noteq> Some (OFunction h qs)))))"
    by (simp add: property_key_def Object_prototype_def)
  note answer = invalid_method_rejected [OF registry envelope unknown, THEN conjunct2]
  show ?thesis
    unfolding answer by (simp add: st new_handler_def)
qed

text \<open>
  C6, as stated, fails for a request without an \<^verbatim>\<open>id\<close>: the answer to
  \<^verbatim>\<open>{"jsonrpc":"2.0","method":"missing"}\<close> is status 500 and no body, not a body whose
  \<^verbatim>\<open>id\<close> is \<^verbatim>\<open>null\<close>.
\<close>

theorem invalid_method_notification_has_no_body:
  "handleRequest_callback object_to_string missing_notification
       (new_handler [] [] (rpcMethods answering) True) =
     (Normal (),
      (new_handler [] [] (rpcMethods answering) True)
        \<lparr>response := [WriteHead 500 json_headers, End None], json := missing_notification\<rparr>)"
  by (simp add: handleRequest_callback_def store_envelope_def missing_notification_def
      new_handler_def rpcMethods_def object_literal_def Object_prototype_def proto_run_def
      invalid_method_def property_key_def proto_error_def proto_output_def)

section \<open>Notifications\<close>

lemma written_bodies_append:
  "written_bodies (xs @ ys) = written_bodies xs @ written_bodies ys"
  by (induction xs rule: written_bodies.induct) simp_all

lemma perform_quiet:
  assumes "id' this = None"
  shows "id' (snd (perform c this)) = None \<and>
         written_bodies (response (snd (perform c this))) = written_bodies (response this)"
  using assms
  by (cases c)
    (simp_all add: own_properties_def proto_error_fields response_proto_error
      written_bodies_append)

lemma perform_all_quiet:
  assumes "id' this = None"
  shows "id' (snd (perform_all cs this)) = None \<and>
         written_bodies (response (snd (perform_all cs this))) = written_bodies (response this)"
  using assms
proof (induction cs arbitrary: this)
  case Nil
  then show ?case by simp
next
  case (Cons c cs)
  obtain r t where step: "perform c this = (r, t)"
    by (cases "perform c this")
  from perform_quiet [OF Cons.prems, of c] step
  have t: "id' t = None" "written_bodies (response t) = written_bodies (response this)"
    by simp_all
  show ?case
  proof (cases r)
    case (Throw e)
    with step t show ?thesis by simp
  next
    case (Normal u)
    with step t Cons.IH [OF t(1)] show ?thesis by simp
  qed
qed

lemma run_handler_quiet:
  assumes "id' this = None"
  shows "id' (snd (run_handler h params this)) = None \<and>
         written_bodies (response (snd (run_handler h params this))) =
           written_bodies (response this)"
proof -
  obtain cs raised where h: "h params = (cs, raised)"
    by (cases "h params")
  obtain r t where all: "perform_all cs this = (r, t)"
    by (cases "perform_all cs this")
  from perform_all_quiet [OF assms, of cs] all
  have t: "id' t = None" "written_bodies (response t) = written_bodies (response this)"
    by simp_all
  have "snd (run_handler h params this) = t"
    using h all by (simp add: run_handler_def split: completion.split option.split)
  with t show ?thesis by simp
qed

lemma try_block_quiet:
  assumes "id' this = None"
  shows "id' (snd (try_block ts this)) = None \<and>
         written_bodies (response (snd (try_block ts this))) = written_bodies (response this)"
  using assms run_handler_quiet [OF assms]
  by (simp add: try_block_def split: completion.split jsobj.split)

lemma proto_run_quiet:
  assumes "id' this = None"
  shows "id' (snd (proto_run ts this)) = None \<and>
         written_bodies (response (snd (proto_run ts this))) = written_bodies (response this)"
proof -
  obtain r t where tb: "try_block ts this = (r, t)"
    by (cases "try_block ts this")
  from try_block_quiet [OF assms, of ts] tb
  have t: "id' t = None" "written_bodies (response t) = written_bodies (response this)"
    by simp_all
  show ?thesis
    using assms tb t
    by (simp add: proto_run_def catch_block_def proto_error_fields response_proto_error
        written_bodies_append split: completion.split)
qed

text \<open>
  For a decoded request without an \<^verbatim>\<open>id\<close> key, the handler object stores no \<^verbatim>\<open>id\<close>; on
  it the prototype's \<^verbatim>\<open>response\<close> and \<^verbatim>\<open>error\<close> alike write a status and end the
  transport with no body; and the callback, whatever the registry and its handlers do
  through \<^verbatim>\<open>rpc.error\<close> and \<^verbatim>\<open>rpc.response\<close>, writes no body and leaves the object without
  an \<^verbatim>\<open>id\<close>.
\<close>

lemma notification_writes_no_body:
  assumes "has_property ''id'' decoded = Normal False"
  shows "store_envelope decoded (new_handler rq rs ms d) =
           (Normal (), (new_handler rq rs ms d)\<lparr>json := decoded\<rparr>) \<and>
         response (proto_response x (snd (store_envelope decoded (new_handler rq rs ms d)))) =
           rs @ [WriteHead 200 json_headers, End None] \<and>
         response (proto_error m (snd (store_envelope decoded (new_handler rq rs ms d)))) =
           rs @ [WriteHead (if truthy m then 500 else 200) json_headers, End None] \<and>
         written_bodies (response (snd (handleRequest_callback ts decoded
            (new_handler rq rs ms d)))) = written_bodies rs \<and>
         id' (snd (handleRequest_callback ts decoded (new_handler rq rs ms d))) = None"
proof -
  let ?st = "(new_handler rq rs ms d)\<lparr>json := decoded\<rparr>"
  have stored: "store_envelope decoded (new_handler rq rs ms d) = (Normal (), ?st)"
    using assms by (rule store_envelope_without_id)
  have no_id: "id' ?st = None"
    by (simp add: new_handler_def)
  have log: "response ?st = rs"
    by (simp add: new_handler_def)
  have callback: "handleRequest_callback ts decoded (new_handler rq rs ms d) =
      proto_run ts ?st"
    by (simp add: handleRequest_callback_def stored)
  show ?thesis
    using proto_run_quiet [OF no_id, of ts]
    by (simp add: stored callback response_proto_response response_proto_error no_id log)
qed

lemma notification_writes_no_body_example:
  "has_property ''id'' insert_notification = Normal False \<and>
   response (proto_response (JString ''Params are OK!'') (stored insert_notification)) =
     [WriteHead 200 json_headers, End None] \<and>
   response (proto_error (JString ''no'') (stored insert_notification)) =
     [WriteHead 500 json_headers, End None] \<and>
   written_bodies (response (snd (handleRequest_callback object_to_string insert_notification
      (new_handler [] [] (rpcMethods answering) True)))) = []"
proof -
  have absent: "has_property ''id'' insert_notification = Normal False"
    by (simp add: insert_notification_def)
  from notification_writes_no_body
    [OF absent, of "[]" "[]" "rpcMethods answering" True "JString ''Params are OK!''"
       "JString ''no''" object_to_string]
  show ?thesis
    by (auto simp add: absent stored_def)
qed

section \<open>The three slips on the way to a handler\<close>

text \<open>
  With the registry of \<^verbatim>\<open>rpcdemo.js\<close> the \<^verbatim>\<open>try\<close> block always throws: the registry is
  indexed with the decoded body, not with its \<^verbatim>\<open>method\<close>. Whatever key the body converts
  to, what is found there is \<^verbatim>\<open>undefined\<close>, whose \<^verbatim>\<open>.method\<close> cannot be read, or it is
  \<^verbatim>\<open>insert\<close>, an inherited function or \<^verbatim>\<open>Object.prototype\<close>, whose property \<^verbatim>\<open>method\<close> is
  \<^verbatim>\<open>undefined\<close> and cannot be called.
\<close>

lemma rpcMethods_entry:
  "\<exists>entry. obj_get (rpcMethods h) k = Normal entry \<and>
     (obj_get entry ''method'' = Throw TypeError \<or> obj_get entry ''method'' = Normal OUndefined)"
  by (simp add: rpcMethods_def object_literal_def Object_prototype_def)

lemma try_block_rpcMethods:
  assumes "methods this = rpcMethods h"
  shows "\<exists>e. try_block ts this = (Throw e, this)"
proof (cases "property_key ts (json this)")
  case (Throw e)
  then show ?thesis by (simp add: try_block_def)
next
  case (Normal k)
  obtain entry where entry: "obj_get (rpcMethods h) k = Normal entry"
    and no_method: "obj_get entry ''method'' = Throw TypeError \<or>
                    obj_get entry ''method'' = Normal OUndefined"
    using rpcMethods_entry [of h k] by blast
  show ?thesis
  proof (cases "get_property (json this) ''params''")
    case (Throw e)
    with Normal assms entry no_method show ?thesis
      by (auto simp add: try_block_def)
  next
    case params: (Normal v)
    with Normal assms entry no_method show ?thesis
      by (auto simp add: try_block_def)
  qed
qed

lemma proto_run_rpcMethods:
  assumes "methods this = rpcMethods h"
    and "get_property (json this) ''method'' = Normal (JString ''insert'')"
  shows "proto_run ts this = (Throw (ReferenceError ''rpcHandler''), this)"
proof -
  have valid: "invalid_method ts (JString ''insert'') (methods this) = Normal False"
    using assms(1)
    by (simp add: invalid_method_def property_key_def rpcMethods_def object_literal_def)
  obtain e where "try_block ts this = (Throw e, this)"
    using try_block_rpcMethods [OF assms(1)] by blast
  then show ?thesis
    using proto_run_valid [OF _ assms(2) valid] assms(1)
    by (simp add: rpcMethods_def object_literal_def)
qed

text \<open>
  A handler's call \<^verbatim>\<open>rpc.response(x)\<close> reads the own property \<^verbatim>\<open>response\<close>, the http
  object the constructor stored under the name of the prototype's method, and throws a
  TypeError; \<^verbatim>\<open>rpc.error(m)\<close> reaches the prototype.
\<close>

lemma perform_response_shadowed: "perform (CallResponse x) this = (Throw TypeError, this)"
  by (simp add: own_properties_def)

lemma perform_error_reaches_prototype:
  "perform (CallError m) this = (Normal (), proto_error m this)"
  by (simp add: own_properties_def)

lemma run_handler_raising:
  "\<exists>e'. run_handler (raising cs e) params this = (Throw e', snd (perform_all cs this))"
  by (cases "perform_all cs this")
    (auto simp add: run_handler_def raising_def split: completion.split)

text \<open>
  C1. The request \<^verbatim>\<open>{"jsonrpc":"2.0","method":"insert","params":["v","v"],"id":1}\<close> against
  the registry of \<^verbatim>\<open>rpcdemo.js\<close>, whatever its \<^verbatim>\<open>insert\<close> does: the constructor sets the
  encoding of the request and ends with a TypeError, with nothing written to the response;
  and the callback, handed the decoded request, stores it and ends with a ReferenceError,
  with nothing written to the response either.
\<close>

theorem insert_scenario_writes_nothing:
  "RpcHandler (Some []) (Some []) (rpcMethods h) True =
     (Throw TypeError, Some [SetEncoding ''utf8''], Some []) \<and>
   handleRequest_callback ts insert_request (new_handler rq [] (rpcMethods h) True) =
     (Throw (ReferenceError ''rpcHandler''),
      (new_handler rq [] (rpcMethods h) True)
        \<lparr>json := insert_request, id' := Some (JNumber 1)\<rparr>)"
proof
  show "RpcHandler (Some []) (Some []) (rpcMethods h) True =
          (Throw TypeError, Some [SetEncoding ''utf8''], Some [])"
    by (simp add: RpcHandler_def rpcMethods_def object_literal_def proto_handleRequest_def
        prototype_methods_def new_handler_def)
next
  let ?st = "(new_handler rq [] (rpcMethods h) True)
               \<lparr>json := insert_request, id' := Some (JNumber 1)\<rparr>"
  have stored: "store_envelope insert_request (new_handler rq [] (rpcMethods h) True) =
      (Normal (), ?st)"
    by (simp add: store_envelope_def insert_request_def)
  have "proto_run ts ?st = (Throw (ReferenceError ''rpcHandler''), ?st)"
    by (rule proto_run_rpcMethods [where h = h])
      (simp_all add: new_handler_def insert_request_def)
  then show "handleRequest_callback ts insert_request (new_handler rq [] (rpcMethods h) True) =
      (Throw (ReferenceError ''rpcHandler''), ?st)"
    by (simp add: handleRequest_callback_def stored)
qed

text \<open>
  C5. The notification \<^verbatim>\<open>{"jsonrpc":"2.0","method":"insert","params":["v","v"]}\<close> against
  the registry of \<^verbatim>\<open>rpcdemo.js\<close>: no body is written, but the transport is not closed
  either. The constructor ends with a TypeError after \<^verbatim>\<open>setEncoding\<close>; the callback,
  handed the decoded request, stores it and ends with a ReferenceError, the response
  untouched; and on the success path a handler's \<^verbatim>\<open>rpc.response(x)\<close> throws a TypeError
  and leaves the response untouched. Only the prototype's two functions, applied to the
  object that stored the request, do what the claim says: a status, and \<^verbatim>\<open>end()\<close> with no
  body.
\<close>

theorem notification_leaves_transport_open:
  "RpcHandler (Some rq) (Some rs) (rpcMethods h) d =
     (Throw TypeError, Some (rq @ [SetEncoding ''utf8'']), Some rs) \<and>
   handleRequest_callback ts insert_notification (new_handler rq rs (rpcMethods h) d) =
     (Throw (ReferenceError ''rpcHandler''),
      (new_handler rq rs (rpcMethods h) d)\<lparr>json := insert_notification\<rparr>) \<and>
   perform (CallResponse x) this = (Throw TypeError, this) \<and>
   response (proto_response x ((new_handler rq rs (rpcMethods h) d)
       \<lparr>json := insert_notification\<rparr>)) =
     rs @ [WriteHead 200 json_headers, End None] \<and>
   response (proto_error m ((new_handler rq rs (rpcMethods h) d)
       \<lparr>json := insert_notification\<rparr>)) =
     rs @ [WriteHead (if truthy m then 500 else 200) json_headers, End None]"
proof -
  let ?st = "(new_handler rq rs (rpcMethods h) d)\<lparr>json := insert_notification\<rparr>"
  have constructed: "RpcHandler (Some rq) (Some rs) (rpcMethods h) d =
      (Throw TypeError, Some (rq @ [SetEncoding ''utf8'']), Some rs)"
    by (simp add: RpcHandler_def rpcMethods_def object_literal_def proto_handleRequest_def
        prototype_methods_def new_handler_def)
  have kept: "store_envelope insert_notification (new_handler rq rs (rpcMethods h) d) =
      (Normal (), ?st)"
    by (simp add: store_envelope_def insert_notification_def)
  have "proto_run ts ?st = (Throw (ReferenceError ''rpcHandler''), ?st)"
    by (rule proto_run_rpcMethods [where h = h])
      (simp_all add: new_handler_def insert_notification_def)
  then have called: "handleRequest_callback ts insert_notification
      (new_handler rq rs (rpcMethods h) d) = (Throw (ReferenceError ''rpcHandler''), ?st)"
    by (simp add: handleRequest_callback_def kept)
  have shadowed: "perform (CallResponse x) this = (Throw TypeError, this)"
    by (rule perform_response_shadowed)
  have success: "response (proto_response x ?st) = rs @ [WriteHead 200 json_headers, End None]"
    by (simp add: response_proto_response new_handler_def)
  have failure: "response (proto_error m ?st) =
      rs @ [WriteHead (if truthy m then 500 else 200) json_headers, End None]"
    by (simp add: response_proto_error new_handler_def)
  from constructed called shadowed success failure show ?thesis
    by (intro conjI)
qed

text \<open>
  C2. A handler that throws is not answered with a runtime-error response. Registered as
  \<^verbatim>\<open>insert\<close> it is never called, and \<^verbatim>\<open>_run\<close> ends with the ReferenceError of its
  \<^verbatim>\<open>catch\<close> block. Registered where the \<^verbatim>\<open>try\<close> block does look, as the \<^verbatim>\<open>method\<close> of
  the entry \<^verbatim>\<open>[object Object]\<close>, it is called, its fault is caught, and \<^verbatim>\<open>_run\<close> ends
  with the same ReferenceError: the transport holds what the handler wrote before it
  threw, and nothing for the fault.
\<close>

theorem handler_fault_escapes_run:
  "proto_run ts ((new_handler rq rs (rpcMethods (raising cs e)) d)
       \<lparr>json := insert_request, id' := Some (JNumber 1)\<rparr>) =
     (Throw (ReferenceError ''rpcHandler''),
      (new_handler rq rs (rpcMethods (raising cs e)) d)
        \<lparr>json := insert_request, id' := Some (JNumber 1)\<rparr>) \<and>
   proto_run object_to_string ((new_handler rq rs (nested_methods h (raising cs e)) d)
       \<lparr>json := insert_request, id' := Some (JNumber 1)\<rparr>) =
     (Throw (ReferenceError ''rpcHandler''),
      snd (perform_all cs ((new_handler rq rs (nested_methods h (raising cs e)) d)
        \<lparr>json := insert_request, id' := Some (JNumber 1)\<rparr>)))"
proof
  show "proto_run ts ((new_handler rq rs (rpcMethods (raising cs e)) d)
       \<lparr>json := insert_request, id' := Some (JNumber 1)\<rparr>) =
     (Throw (ReferenceError ''rpcHandler''),
      (new_handler rq rs (rpcMethods (raising cs e)) d)
        \<lparr>json := insert_request, id' := Some (JNumber 1)\<rparr>)"
    by (rule proto_run_rpcMethods [where h = "raising cs e"])
      (simp_all add: new_handler_def insert_request_def)
next
  let ?st = "(new_handler rq rs (nested_methods h (raising cs e)) d)
               \<lparr>json := insert_request, id' := Some (JNumber 1)\<rparr>"
  have registry: "truthy_obj (methods ?st)"
    by (simp add: new_handler_def nested_methods_def object_literal_def)
  have name: "get_property (json ?st) ''method'' = Normal (JString ''insert'')"
    by (simp add: insert_request_def)
  have valid: "invalid_method object_to_string (JString ''insert'') (methods ?st) = Normal False"
    by (simp add: invalid_method_def property_key_def new_handler_def nested_methods_def
        object_literal_def)
  have called: "try_block object_to_string ?st =
      run_handler (raising cs e) (JArray [JString ''v'', JString ''v'']) ?st"
    by (simp add: try_block_def property_key_def object_to_string_def new_handler_def
        nested_methods_def object_literal_def insert_request_def)
  obtain e' where "try_block object_to_string ?st = (Throw e', snd (perform_all cs ?st))"
    using run_handler_raising [of cs e "JArray [JString ''v'', JString ''v'']" ?st]
    unfolding called by blast
  then show "proto_run object_to_string ?st =
      (Throw (ReferenceError ''rpcHandler''), snd (perform_all cs ?st))"
    using proto_run_valid [OF registry name valid] by simp
qed

section \<open>A body that is not JSON\<close>

text \<open>
  C3. When \<^verbatim>\<open>JSON.parse\<close> throws on the accumulated body, the \<^verbatim>\<open>end\<close> listener ends with
  that fault and the handler object, the response included, is as it was: nothing is
  written and the transport is not closed.
\<close>

theorem parse_fault_escapes_listener:
  assumes "JSON_parse (foldl data_listener [] chunks) = Throw e"
  shows "receive JSON_parse ts chunks this = (Throw e, this)"
  using assms by (simp add: receive_def end_listener_def)

theorem parse_fault_escapes_listener_witness:
  "rejecting_parse (foldl data_listener [] [''{'', ''x'']) = Throw SyntaxError \<and>
   receive rejecting_parse object_to_string [''{'', ''x'']
       (new_handler [SetEncoding ''utf8'', AddListener ''data'', AddListener ''end''] []
          (rpcMethods answering) True) =
     (Throw SyntaxError,
      new_handler [SetEncoding ''utf8'', AddListener ''data'', AddListener ''end''] []
        (rpcMethods answering) True)"
proof -
  have rejected: "rejecting_parse (foldl data_listener [] [''{'', ''x'']) = Throw SyntaxError"
    by (simp add: rejecting_parse_def)
  from parse_fault_escapes_listener
    [of rejecting_parse "[''{'', ''x'']" SyntaxError object_to_string, OF rejected] rejected
  show ?thesis by blast
qed

end
